theory Spec2Isabelle
  imports Complex_Main "HOL-Library.Word" "HOL-Library.Sublist" "HOL-Library.Char_ord"
    "HOL-Library.List_Lexorder"
begin

unbundle bit_operations_syntax

section \<open>Typed arrays and buffers\<close>

text \<open>
  A JavaScript \<^verbatim>\<open>ArrayBuffer\<close> is a sequence of bytes. A \<^verbatim>\<open>Float32Array\<close> and a Node
  \<^verbatim>\<open>Buffer\<close> are views on an ArrayBuffer: the underlying bytes, a byte offset and a
  length (in elements for the typed array, in bytes for the Buffer). An IEEE-754 binary32
  value is kept as its 32-bit pattern, so that equality of two values in the model is
  bit-for-bit equality; elements are laid out little-endian, four bytes each.
\<close>

type_synonym byte = "8 word"
type_synonym f32 = "32 word"

datatype js_error = Error string | RangeError string

fun message :: "js_error \<Rightarrow> string" where
  "message (Error m) = m"
| "message (RangeError m) = m"

record Float32Array =
  fa_buffer :: "byte list"
  fa_byteOffset :: nat
  fa_length :: nat

record Buffer =
  buf_buffer :: "byte list"
  buf_byteOffset :: nat
  buf_length :: nat

definition le_word :: "byte list \<Rightarrow> f32" where
  "le_word bs = foldr (\<lambda>b acc. ucast b OR push_bit 8 acc) bs 0"

definition f32_bytes :: "f32 \<Rightarrow> byte list" where
  "f32_bytes w = [ucast w, ucast (drop_bit 8 w), ucast (drop_bit 16 w), ucast (drop_bit 24 w)]"

definition f32_at :: "byte list \<Rightarrow> nat \<Rightarrow> f32" where
  "f32_at bytes off = le_word (take 4 (drop off bytes))"

text \<open>\<^verbatim>\<open>a[i]\<close>: the element inside the view, \<^verbatim>\<open>undefined\<close> outside of it.\<close>

definition fa_get :: "Float32Array \<Rightarrow> nat \<Rightarrow> f32 option" where
  "fa_get a i = (if i < fa_length a then Some (f32_at (fa_buffer a) (fa_byteOffset a + 4 * i))
                 else None)"

definition fa_elems :: "Float32Array \<Rightarrow> f32 list" where
  "fa_elems a = map (\<lambda>i. f32_at (fa_buffer a) (fa_byteOffset a + 4 * i)) [0..<fa_length a]"

text \<open>
  \<^verbatim>\<open>new Float32Array(data)\<close> on a sequence of float32 values, as \<^verbatim>\<open>embed\<close> builds its
  result from the tensor data: a fresh buffer holding exactly the elements.
\<close>

definition new_Float32Array :: "f32 list \<Rightarrow> Float32Array" where
  "new_Float32Array xs =
     \<lparr>fa_buffer = concat (map f32_bytes xs), fa_byteOffset = 0, fa_length = length xs\<rparr>"

text \<open>\<^verbatim>\<open>a.subarray(begin)\<close> for \<open>begin \<le> a.length\<close>: a view on the same buffer.\<close>

definition subarray :: "Float32Array \<Rightarrow> nat \<Rightarrow> Float32Array" where
  "subarray a k = (let k' = min k (fa_length a) in
     \<lparr>fa_buffer = fa_buffer a, fa_byteOffset = fa_byteOffset a + 4 * k',
      fa_length = fa_length a - k'\<rparr>)"

text \<open>
  \<^verbatim>\<open>new Float32Array(buffer, byteOffset, length)\<close>: the offset must be a multiple of the
  element size and the view must fit into the buffer, otherwise a RangeError is thrown.
  The length argument \<^verbatim>\<open>buffer.length / 4\<close> is truncated to an integer.
\<close>

definition view_Float32Array :: "byte list \<Rightarrow> nat \<Rightarrow> nat \<Rightarrow> js_error + Float32Array" where
  "view_Float32Array bytes off len =
     (if off mod 4 \<noteq> 0 then Inl (RangeError ''start offset of Float32Array should be a multiple of 4'')
      else if off + 4 * len > length bytes then Inl (RangeError ''Invalid typed array length'')
      else Inr \<lparr>fa_buffer = bytes, fa_byteOffset = off, fa_length = len\<rparr>)"

subsection \<open>serializeEmbedding and deserializeEmbedding\<close>

text \<open>
  \<^verbatim>\<open>Buffer.from(embedding.buffer)\<close> is a view on the whole ArrayBuffer under the typed
  array.
\<close>

definition serializeEmbedding :: "Float32Array \<Rightarrow> Buffer" where
  "serializeEmbedding embedding =
     \<lparr>buf_buffer = fa_buffer embedding, buf_byteOffset = 0,
      buf_length = length (fa_buffer embedding)\<rparr>"

definition deserializeEmbedding :: "Buffer \<Rightarrow> js_error + Float32Array" where
  "deserializeEmbedding buffer =
     view_Float32Array (buf_buffer buffer) (buf_byteOffset buffer) (buf_length buffer div 4)"


section \<open>Numbers\<close>

text \<open>
  JavaScript numbers are IEEE-754 doubles. The model computes with real numbers: there is
  no rounding error, no NaN and no infinity. A float32 element is read as the real number
  its bit pattern denotes (sign, 8 exponent bits, 23 fraction bits); the patterns with
  exponent 255, which JavaScript reads as NaN or an infinity, are read by the formula of the
  normal numbers.
\<close>

definition f32_value :: "f32 \<Rightarrow> real" where
  "f32_value w =
     (let s = (if bit w 31 then - 1 else 1 :: real);
          e = unat (drop_bit 23 w AND 0xFF);
          m = unat (w AND 0x7FFFFF)
      in if e = 0 then s * real m / 2 ^ 149
         else if e < 150 then s * real (2 ^ 23 + m) / 2 ^ (150 - e)
         else s * real (2 ^ 23 + m) * 2 ^ (e - 150))"

text \<open>The number read at an index inside the view.\<close>

definition fa_num :: "Float32Array \<Rightarrow> nat \<Rightarrow> real" where
  "fa_num a i = f32_value (f32_at (fa_buffer a) (fa_byteOffset a + 4 * i))"

text \<open>\<^verbatim>\<open>x ?? 0\<close> on an element read.\<close>

definition nullish0 :: "f32 option \<Rightarrow> real" where
  "nullish0 x = (case x of None \<Rightarrow> 0 | Some v \<Rightarrow> f32_value v)"

definition Math_round :: "real \<Rightarrow> real" where
  "Math_round x = of_int \<lfloor>x + 1 / 2\<rfloor>"

text \<open>The conversion of a number to an integer index: truncation towards zero.\<close>

definition ToInteger :: "real \<Rightarrow> int" where
  "ToInteger x = (if x < 0 then \<lceil>x\<rceil> else \<lfloor>x\<rfloor>)"

text \<open>
  \<^verbatim>\<open>xs.slice(0, end)\<close>: a negative end counts from the end of the array.
\<close>

definition slice0 :: "'a list \<Rightarrow> real \<Rightarrow> 'a list" where
  "slice0 xs end =
     (let len = int (length xs);
          relativeEnd = ToInteger end;
          final = (if relativeEnd < 0 then max (len + relativeEnd) 0 else min relativeEnd len)
      in take (nat final) xs)"

text \<open>Decimal digits of a number inside a template literal.\<close>

fun show_nat :: "nat \<Rightarrow> string" where
  "show_nat n = (if n < 10 then [''0123456789'' ! n]
                 else show_nat (n div 10) @ [''0123456789'' ! (n mod 10)])"

section \<open>The embeddings engine\<close>

subsection \<open>cosineSimilarity\<close>

text \<open>
  The exported function of the embeddings module: a dimension check that throws, then the
  dot product, the vectors being taken as normalized.
\<close>

definition cosineSimilarity :: "Float32Array \<Rightarrow> Float32Array \<Rightarrow> js_error + real" where
  "cosineSimilarity a b =
     (if fa_length a \<noteq> fa_length b
      then Inl (Error (''Embedding dimensions don't match: '' @ show_nat (fa_length a)
                        @ '' vs '' @ show_nat (fa_length b)))
      else Inr (fold (\<lambda>i dotProduct. dotProduct + nullish0 (fa_get a i) * nullish0 (fa_get b i))
                  [0..<fa_length a] 0))"



subsection \<open>findSimilar\<close>

record 'id candidate =
  cand_id :: 'id
  cand_embedding :: Float32Array

record 'id match =
  match_id :: 'id
  similarity :: real

text \<open>\<^verbatim>\<open>xs.map(f)\<close> with a callback that may throw: the first throw ends the map.\<close>

fun map_throw :: "('a \<Rightarrow> js_error + 'b) \<Rightarrow> 'a list \<Rightarrow> js_error + 'b list" where
  "map_throw f [] = Inr []"
| "map_throw f (x # xs) =
     (case f x of
        Inl e \<Rightarrow> Inl e
      | Inr y \<Rightarrow> (case map_throw f xs of Inl e \<Rightarrow> Inl e | Inr ys \<Rightarrow> Inr (y # ys)))"

definition score :: "Float32Array \<Rightarrow> 'id candidate \<Rightarrow> js_error + 'id match" where
  "score queryEmbedding c =
     (case cosineSimilarity queryEmbedding (cand_embedding c) of
        Inl e \<Rightarrow> Inl e
      | Inr s \<Rightarrow> Inr \<lparr>match_id = cand_id c, similarity = s\<rparr>)"

text \<open>
  map, filter, sort descending by similarity (the sort of JavaScript is stable), slice.
\<close>

definition findSimilar ::
  "Float32Array \<Rightarrow> 'id candidate list \<Rightarrow> real \<Rightarrow> real \<Rightarrow> js_error + 'id match list" where
  "findSimilar queryEmbedding candidates limit minSimilarity =
     (case map_throw (score queryEmbedding) candidates of
        Inl e \<Rightarrow> Inl e
      | Inr scored \<Rightarrow>
          Inr (slice0 (sort_key (\<lambda>r. - similarity r)
                         (filter (\<lambda>r. similarity r \<ge> minSimilarity) scored)) limit))"

subsection \<open>The model singleton\<close>

text \<open>
  The module keeps \<^verbatim>\<open>embeddingPipeline\<close> (null or the loaded model) and \<^verbatim>\<open>initPromise\<close>
  (null or the promise of the load). \<open>pipeline_calls\<close> counts the calls of the library's
  \<^verbatim>\<open>pipeline(...)\<close>, that is the model loads started; it is not a variable of the code.
\<close>

datatype promise = Pending | Fulfilled | Rejected js_error

record emb_module =
  embeddingPipeline :: bool
  initPromise :: "promise option"
  pipeline_calls :: nat

definition emb_initial :: emb_module where
  "emb_initial = \<lparr>embeddingPipeline = False, initPromise = None, pipeline_calls = 0\<rparr>"

text \<open>
  JavaScript runs a function without interruption up to its next \<^verbatim>\<open>await\<close>. A call of
  \<^verbatim>\<open>initialize\<close> therefore runs as one step up to the point where it returns or awaits:
  it returns at once when the model is there, awaits the stored promise when there is
  one, and otherwise calls \<^verbatim>\<open>pipeline(...)\<close>, stores the promise of the load and awaits it.
\<close>

datatype init_entry = Return_loaded | Await_existing | Await_started

definition initialize_enter :: "emb_module \<Rightarrow> init_entry \<times> emb_module" where
  "initialize_enter m =
     (if embeddingPipeline m then (Return_loaded, m)
      else if initPromise m \<noteq> None then (Await_existing, m)
      else (Await_started, m\<lparr>initPromise := Some Pending,
                               pipeline_calls := pipeline_calls m + 1\<rparr>))"

text \<open>
  The load settles: \<^verbatim>\<open>pipeline(...)\<close> resolves (\<open>None\<close>) and the model is stored, or it
  rejects with an error and the stored promise is rejected.
\<close>

definition load_settles :: "js_error option \<Rightarrow> emb_module \<Rightarrow> emb_module" where
  "load_settles outcome m =
     (if initPromise m = Some Pending then
        (case outcome of
           None \<Rightarrow> m\<lparr>embeddingPipeline := True, initPromise := Some Fulfilled\<rparr>
         | Some e \<Rightarrow> m\<lparr>initPromise := Some (Rejected e)\<rparr>)
      else m)"

text \<open>Any interleaving of calls of \<^verbatim>\<open>initialize\<close> and of the load settling.\<close>

datatype event = Call_initialize | Load_settles "js_error option"

fun step :: "emb_module \<Rightarrow> event \<Rightarrow> emb_module" where
  "step m Call_initialize = snd (initialize_enter m)"
| "step m (Load_settles outcome) = load_settles outcome m"

definition run :: "emb_module \<Rightarrow> event list \<Rightarrow> emb_module" where
  "run m es = foldl step m es"


text \<open>
  The states the module can be in: nothing started, the load pending, the load failed, the
  model loaded.
\<close>

definition reachable_shape :: "emb_module \<Rightarrow> bool" where
  "reachable_shape m =
     (case initPromise m of
        None \<Rightarrow> \<not> embeddingPipeline m \<and> pipeline_calls m = 0
      | Some Pending \<Rightarrow> \<not> embeddingPipeline m \<and> pipeline_calls m = 1
      | Some (Rejected e) \<Rightarrow> \<not> embeddingPipeline m \<and> pipeline_calls m = 1
      | Some Fulfilled \<Rightarrow> embeddingPipeline m \<and> pipeline_calls m = 1)"

section \<open>The database layer\<close>

text \<open>
  The tables are lists of rows in the order in which the store enumerates them. Of a
  project only the identifier, the name and the root path are kept; of a file-index row
  the columns \<^verbatim>\<open>id\<close> and \<^verbatim>\<open>metadata\<close> are left out, since no operation modelled here reads
  them.
\<close>

record Project =
  proj_id :: string
  proj_name :: string
  proj_path :: string

record FileIndexRow =
  fi_project_id :: string
  fi_path :: string
  fi_file_type :: "string option"
  fi_size :: nat
  fi_content_hash :: string
  fi_content_preview :: "string option"
  fi_embedding :: "Buffer option"
  fi_indexed_at :: string

record PatternRow =
  pr_id :: nat
  pr_project_id :: string
  pr_name :: string
  pr_problem :: string
  pr_solution :: string
  pr_implementation :: "string option"
  pr_metrics :: "string option"
  pr_problem_embedding :: "Buffer option"
  pr_created_at :: string

record PatternData =
  pd_id :: nat
  pd_projectId :: string
  pd_name :: string
  pd_problem :: string
  pd_solution :: string
  pd_implementation :: "string option"
  pd_metrics :: "string option"
  pd_problemEmbedding :: "Buffer option"
  pd_createdAt :: string

record activity =
  act_project_id :: "string option"
  act_action :: string
  act_details :: "(string \<times> string) list"
  act_timestamp :: string

record ProjectDatabase =
  projects :: "Project list"
  file_index :: "FileIndexRow list"
  patterns :: "PatternRow list"
  activity_log :: "activity list"

text \<open>\<^verbatim>\<open>s || undefined\<close> on a nullable string: the empty string counts as absent.\<close>

definition or_undefined :: "string option \<Rightarrow> string option" where
  "or_undefined x = (case x of None \<Rightarrow> None | Some s \<Rightarrow> if s = [] then None else Some s)"

definition getProject :: "ProjectDatabase \<Rightarrow> string \<Rightarrow> Project option" where
  "getProject d ident = find (\<lambda>p. proj_id p = ident) (projects d)"

definition getIndexedFile :: "ProjectDatabase \<Rightarrow> string \<Rightarrow> string \<Rightarrow> FileIndexRow option" where
  "getIndexedFile d projectId path =
     find (\<lambda>r. fi_project_id r = projectId \<and> fi_path r = path) (file_index d)"

definition getIndexedFiles :: "ProjectDatabase \<Rightarrow> string \<Rightarrow> FileIndexRow list" where
  "getIndexedFiles d projectId = filter (\<lambda>r. fi_project_id r = projectId) (file_index d)"

text \<open>
  The options object of \<^verbatim>\<open>indexFile\<close>, each field optional, and the upsert on
  \<open>(project_id, path)\<close>: an existing row is replaced in place, a new one is appended.
\<close>

record index_options =
  opt_file_type :: "string option"
  opt_size :: "nat option"
  opt_content_hash :: "string option"
  opt_content_preview :: "string option"
  opt_embedding :: "Buffer option"

definition indexFile ::
  "ProjectDatabase \<Rightarrow> string \<Rightarrow> string \<Rightarrow> index_options \<Rightarrow> string \<Rightarrow> ProjectDatabase" where
  "indexFile d projectId path opts now =
     (let row = \<lparr>fi_project_id = projectId, fi_path = path,
                 fi_file_type = opt_file_type opts,
                 fi_size = (case opt_size opts of None \<Rightarrow> 0 | Some n \<Rightarrow> n),
                 fi_content_hash = (case opt_content_hash opts of None \<Rightarrow> [] | Some h \<Rightarrow> h),
                 fi_content_preview =
                   Some (case opt_content_preview opts of None \<Rightarrow> [] | Some c \<Rightarrow> c),
                 fi_embedding = opt_embedding opts,
                 fi_indexed_at = now\<rparr>;
          same = (\<lambda>r. fi_project_id r = projectId \<and> fi_path r = path)
      in if list_ex same (file_index d)
         then d\<lparr>file_index := map (\<lambda>r. if same r then row else r) (file_index d)\<rparr>
         else d\<lparr>file_index := file_index d @ [row]\<rparr>)"

text \<open>
  \<^verbatim>\<open>getPatterns(projectId?)\<close>: all rows, or those of one project when the argument is a
  non-empty string, newest first. Metrics stay the stored text.
\<close>

definition pattern_of_row :: "PatternRow \<Rightarrow> PatternData" where
  "pattern_of_row row =
     \<lparr>pd_id = pr_id row, pd_projectId = pr_project_id row, pd_name = pr_name row,
      pd_problem = pr_problem row, pd_solution = pr_solution row,
      pd_implementation = or_undefined (pr_implementation row),
      pd_metrics = or_undefined (pr_metrics row),
      pd_problemEmbedding = pr_problem_embedding row,
      pd_createdAt = pr_created_at row\<rparr>"

definition getPatterns :: "ProjectDatabase \<Rightarrow> string option \<Rightarrow> PatternData list" where
  "getPatterns d projectId =
     (let rows = (case projectId of
                    None \<Rightarrow> patterns d
                  | Some p \<Rightarrow> if p = [] then patterns d
                              else filter (\<lambda>r. pr_project_id r = p) (patterns d))
      in map pattern_of_row (rev (sort_key pr_created_at rows)))"

definition logActivity ::
  "ProjectDatabase \<Rightarrow> string \<Rightarrow> (string \<times> string) list \<Rightarrow> string option \<Rightarrow> string
     \<Rightarrow> ProjectDatabase" where
  "logActivity d action details projectId now =
     d\<lparr>activity_log := activity_log d @
         [\<lparr>act_project_id = or_undefined projectId, act_action = action,
           act_details = details, act_timestamp = now\<rparr>]\<rparr>"

section \<open>The environment and the state\<close>

text \<open>
  What the handlers read from outside: the file system, the path and hash functions of the
  runtime, the clock, the embedding model (whether its load resolves, and what it returns
  for a text) and the failures of the store on a write. A call that can throw returns
  \<open>Inl\<close> with the error. \<open>findTextFiles\<close> is the result of the recursive scan of a
  directory for files with a text extension.
\<close>

record Env =
  existsSync :: "string \<Rightarrow> bool"
  readFile :: "string \<Rightarrow> js_error + string"
  stat_size :: "string \<Rightarrow> js_error + nat"
  findTextFiles :: "string \<Rightarrow> string list"
  path_join :: "string \<Rightarrow> string \<Rightarrow> string"
  path_relative :: "string \<Rightarrow> string \<Rightarrow> string"
  path_extname :: "string \<Rightarrow> string"
  md5_hex :: "string \<Rightarrow> string"
  now_iso :: string
  load_pipeline :: "js_error option"
  run_pipeline :: "string \<Rightarrow> js_error + f32 list"
  indexFile_fault :: "ProjectDatabase \<Rightarrow> string \<Rightarrow> string \<Rightarrow> js_error option"

text \<open>
  The state the handlers change: the database and the model singleton. \<open>embed_calls\<close>
  and \<open>store_writes\<close> count the calls of \<^verbatim>\<open>embed\<close> and the rows written to the file
  index; they are not variables of the code.
\<close>

record World =
  db :: ProjectDatabase
  emb :: emb_module
  embed_calls :: nat
  store_writes :: nat

text \<open>
  \<^verbatim>\<open>await initialize()\<close> inside a handler: the call is entered and, where it awaits the
  load, the load settles as the environment says.
\<close>

definition initialize :: "Env \<Rightarrow> emb_module \<Rightarrow> (js_error + unit) \<times> emb_module" where
  "initialize env m =
     (case initialize_enter m of
        (Return_loaded, m1) \<Rightarrow> (Inr (), m1)
      | (_, m1) \<Rightarrow>
          (let m2 = load_settles (load_pipeline env) m1
           in case initPromise m2 of
                Some (Rejected e) \<Rightarrow> (Inl e, m2)
              | _ \<Rightarrow> (Inr (), m2)))"

definition preload :: "Env \<Rightarrow> World \<Rightarrow> (js_error + unit) \<times> World" where
  "preload env w = (case initialize env (emb w) of (r, m) \<Rightarrow> (r, w\<lparr>emb := m\<rparr>))"

definition embed :: "Env \<Rightarrow> string \<Rightarrow> World \<Rightarrow> (js_error + Float32Array) \<times> World" where
  "embed env text w =
     (let w0 = w\<lparr>embed_calls := embed_calls w + 1\<rparr> in
      case initialize env (emb w0) of
        (Inl e, m) \<Rightarrow> (Inl e, w0\<lparr>emb := m\<rparr>)
      | (Inr _, m) \<Rightarrow>
          (let w1 = w0\<lparr>emb := m\<rparr> in
           if \<not> embeddingPipeline m then (Inl (Error ''Embeddings pipeline not initialized''), w1)
           else (case run_pipeline env (take 8000 text) of
                   Inl e \<Rightarrow> (Inl e, w1)
                 | Inr data \<Rightarrow> (Inr (new_Float32Array data), w1))))"

text \<open>\<^verbatim>\<open>db.indexFile(...)\<close> as the handlers call it: it throws, or it writes the row.\<close>

definition db_indexFile ::
  "Env \<Rightarrow> string \<Rightarrow> string \<Rightarrow> index_options \<Rightarrow> World \<Rightarrow> (js_error + unit) \<times> World" where
  "db_indexFile env projectId path opts w =
     (case indexFile_fault env (db w) projectId path of
        Some e \<Rightarrow> (Inl e, w)
      | None \<Rightarrow> (Inr (), w\<lparr>db := indexFile (db w) projectId path opts (now_iso env),
                            store_writes := store_writes w + 1\<rparr>))"

datatype 'a ToolResult = Success 'a | Failure string string

section \<open>The semantic search handlers\<close>

text \<open>The message \<^verbatim>\<open>Project '${project}' not found\<close>.\<close>

definition project_not_found :: "string \<Rightarrow> string" where
  "project_not_found project = ''Project '' @ [CHR 0x27] @ project @ [CHR 0x27] @ '' not found''"

subsection \<open>search\_semantic\<close>

record SearchSemanticInput =
  ss_query :: string
  ss_project :: string
  ss_fileTypes :: "string list option"
  ss_limit :: "real option"
  ss_minRelevance :: "real option"

record search_result =
  sr_path :: string
  relevance :: real
  preview :: string

record search_data =
  sd_query :: string
  matchCount :: nat
  results :: "search_result list"

text \<open>\<^verbatim>\<open>file?.content_preview?.substring(0, 200) || ''\<close>\<close>

definition preview_of :: "FileIndexRow option \<Rightarrow> string" where
  "preview_of file =
     (case file of
        None \<Rightarrow> []
      | Some f \<Rightarrow> (case fi_content_preview f of None \<Rightarrow> [] | Some c \<Rightarrow> take 200 c))"

text \<open>
  One element of \<^verbatim>\<open>candidates.map(f => ({id: f.path, embedding:
  deserializeEmbedding(f.embedding!)}))\<close>.
\<close>

definition file_candidate :: "FileIndexRow \<Rightarrow> js_error + string candidate" where
  "file_candidate f =
     (case fi_embedding f of
        None \<Rightarrow> Inl (Error ''Cannot read properties of null'')
      | Some buffer \<Rightarrow>
          (case deserializeEmbedding buffer of
             Inl e \<Rightarrow> Inl e
           | Inr v \<Rightarrow> Inr \<lparr>cand_id = fi_path f, cand_embedding = v\<rparr>))"

text \<open>The rows with an embedding, filtered by the file types when some are given.\<close>

definition search_candidates ::
  "ProjectDatabase \<Rightarrow> string \<Rightarrow> string list option \<Rightarrow> FileIndexRow list" where
  "search_candidates d project fileTypes =
     (let indexedFiles = getIndexedFiles d project;
          candidates = filter (\<lambda>f. fi_embedding f \<noteq> None) indexedFiles
      in case fileTypes of
           None \<Rightarrow> candidates
         | Some exts \<Rightarrow>
             if length exts > 0
             then filter (\<lambda>f. list_ex (\<lambda>ext. suffix ext (fi_path f)) exts) candidates
             else candidates)"

definition search_hit :: "FileIndexRow list \<Rightarrow> string match \<Rightarrow> search_result" where
  "search_hit candidates m =
     \<lparr>sr_path = match_id m,
      relevance = Math_round (similarity m * 100) / 100,
      preview = preview_of (find (\<lambda>f. fi_path f = match_id m) candidates)\<rparr>"

text \<open>
  The handler has no \<^verbatim>\<open>try\<close>: an error thrown by \<^verbatim>\<open>embed\<close>, by the deserialization or by
  \<^verbatim>\<open>findSimilar\<close> leaves it (\<open>Inl\<close>).
\<close>

definition search_semantic ::
  "Env \<Rightarrow> SearchSemanticInput \<Rightarrow> World \<Rightarrow> (js_error + search_data ToolResult) \<times> World" where
  "search_semantic env input w =
     (let query = ss_query input;
          project = ss_project input;
          limit = (case ss_limit input of None \<Rightarrow> 10 | Some l \<Rightarrow> l);
          minRelevance = (case ss_minRelevance input of None \<Rightarrow> 3 / 10 | Some r \<Rightarrow> r)
      in case getProject (db w) project of
           None \<Rightarrow> (Inr (Failure ''PROJECT_NOT_FOUND'' (project_not_found project)), w)
         | Some projectInfo \<Rightarrow>
             (let candidates = search_candidates (db w) project (ss_fileTypes input) in
              if length candidates = 0
              then (Inr (Failure ''NO_INDEXED_FILES''
                           ''No indexed files found. Run pm_index_files first.''), w)
              else
                (case embed env query w of
                   (Inl e, w1) \<Rightarrow> (Inl e, w1)
                 | (Inr queryEmbedding, w1) \<Rightarrow>
                     (case map_throw file_candidate candidates of
                        Inl e \<Rightarrow> (Inl e, w1)
                      | Inr candidatesWithEmbeddings \<Rightarrow>
                          (case findSimilar queryEmbedding candidatesWithEmbeddings
                                  limit minRelevance of
                             Inl e \<Rightarrow> (Inl e, w1)
                           | Inr similar \<Rightarrow>
                               (let results = map (search_hit candidates) similar
                                in (Inr (Success \<lparr>sd_query = query,
                                                   matchCount = length results,
                                                   results = results\<rparr>), w1)))))))"

subsection \<open>pm\_index\_files\<close>

record IndexFilesInput =
  ifs_project :: string
  ifs_paths :: "string list option"
  ifs_reindex :: "bool option"

record index_files_data =
  totalFiles :: nat
  indexed :: nat
  skipped :: nat
  errors :: "string list option"

datatype file_outcome = File_indexed | File_skipped

text \<open>
  The body of the \<^verbatim>\<open>try\<close> inside the loop, for one file: \<open>Inl\<close> is what the \<^verbatim>\<open>catch\<close>
  receives.
\<close>

definition index_files_try ::
  "Env \<Rightarrow> string \<Rightarrow> string \<Rightarrow> bool \<Rightarrow> string \<Rightarrow> World \<Rightarrow> (js_error + file_outcome) \<times> World" where
  "index_files_try env project projectPath reindex filePath w =
     (let relativePath = path_relative env projectPath filePath in
      case readFile env filePath of
        Inl e \<Rightarrow> (Inl e, w)
      | Inr content \<Rightarrow>
          (let contentHash = md5_hex env content;
               existing = getIndexedFile (db w) project relativePath
           in if (case existing of None \<Rightarrow> False | Some r \<Rightarrow> fi_content_hash r = contentHash)
                 \<and> \<not> reindex
              then (Inr File_skipped, w)
              else
                (case embed env content w of
                   (Inl e, w1) \<Rightarrow> (Inl e, w1)
                 | (Inr embedding, w1) \<Rightarrow>
                     (let serialized = serializeEmbedding embedding in
                      case stat_size env filePath of
                        Inl e \<Rightarrow> (Inl e, w1)
                      | Inr fileSize \<Rightarrow>
                          (case db_indexFile env project relativePath
                                  \<lparr>opt_file_type = Some (path_extname env filePath),
                                   opt_size = Some fileSize,
                                   opt_content_hash = Some contentHash,
                                   opt_content_preview = Some (take 1000 content),
                                   opt_embedding = Some serialized\<rparr> w1 of
                             (Inl e, w2) \<Rightarrow> (Inl e, w2)
                           | (Inr _, w2) \<Rightarrow> (Inr File_indexed, w2))))))"

text \<open>The loop over the discovered files, with its three accumulators.\<close>

fun index_files_loop ::
  "Env \<Rightarrow> string \<Rightarrow> string \<Rightarrow> bool \<Rightarrow> string list \<Rightarrow> nat \<times> nat \<times> string list \<Rightarrow> World
     \<Rightarrow> (nat \<times> nat \<times> string list) \<times> World" where
  "index_files_loop env project projectPath reindex [] acc w = (acc, w)"
| "index_files_loop env project projectPath reindex (filePath # rest) (indexed', skipped', errors') w =
     (case index_files_try env project projectPath reindex filePath w of
        (Inr File_skipped, w') \<Rightarrow>
          index_files_loop env project projectPath reindex rest (indexed', skipped' + 1, errors') w'
      | (Inr File_indexed, w') \<Rightarrow>
          index_files_loop env project projectPath reindex rest (indexed' + 1, skipped', errors') w'
      | (Inl err, w') \<Rightarrow>
          index_files_loop env project projectPath reindex rest
            (indexed', skipped', errors' @ [filePath @ '': '' @ message err]) w')"

definition discover :: "Env \<Rightarrow> string \<Rightarrow> string list option \<Rightarrow> string list" where
  "discover env projectPath paths =
     (let searchPaths = (case paths of
                           None \<Rightarrow> [projectPath]
                         | Some ps \<Rightarrow> map (\<lambda>p. path_join env projectPath p) ps)
      in concat (map (\<lambda>searchPath. if existsSync env searchPath
                                    then findTextFiles env searchPath else [])
                   searchPaths))"

text \<open>
  The project check, the preload outside of any \<^verbatim>\<open>try\<close>, the discovery, the loop and the
  aggregate result with at most ten error lines.
\<close>

definition pm_index_files ::
  "Env \<Rightarrow> IndexFilesInput \<Rightarrow> World \<Rightarrow> (js_error + index_files_data ToolResult) \<times> World" where
  "pm_index_files env input w =
     (let project = ifs_project input;
          reindex = (case ifs_reindex input of None \<Rightarrow> False | Some b \<Rightarrow> b)
      in case getProject (db w) project of
           None \<Rightarrow> (Inr (Failure ''PROJECT_NOT_FOUND'' (project_not_found project)), w)
         | Some projectInfo \<Rightarrow>
             (case preload env w of
                (Inl e, w1) \<Rightarrow> (Inl e, w1)
              | (Inr _, w1) \<Rightarrow>
                  (let projectPath = proj_path projectInfo;
                       allFiles = discover env projectPath (ifs_paths input)
                   in case index_files_loop env project projectPath reindex allFiles
                             (0, 0, []) w1 of
                        ((indexed', skipped', errors'), w2) \<Rightarrow>
                          (Inr (Success \<lparr>totalFiles = length allFiles,
                                          indexed = indexed',
                                          skipped = skipped',
                                          errors = (if length errors' > 0
                                                    then Some (slice0 errors' 10)
                                                    else None)\<rparr>), w2))))"

subsection \<open>pm\_index\_file\<close>






section \<open>The pattern handlers\<close>

subsection \<open>suggest\_patterns\<close>

record SuggestPatternsInput =
  sp_problem :: string
  sp_currentProject :: "string option"
  sp_limit :: "real option"
  sp_minConfidence :: "real option"
  sp_includeCurrentProject :: "bool option"

record suggestion =
  sg_patternId :: nat
  sg_name :: string
  sg_project :: string
  confidence :: real
  sg_problem :: string
  sg_solution :: string

record suggest_data =
  sg_message :: "string option"
  suggestions :: "suggestion list"

text \<open>
  The patterns with an embedding; those of the current project are dropped when
  \<^verbatim>\<open>currentProject && !includeCurrentProject\<close>, a condition the empty string fails as the
  absent one does.
\<close>

definition pattern_candidates ::
  "PatternData list \<Rightarrow> string option \<Rightarrow> bool \<Rightarrow> PatternData list" where
  "pattern_candidates pats currentProject includeCurrentProject =
     (let candidates = filter (\<lambda>p. pd_problemEmbedding p \<noteq> None) pats
      in case currentProject of
           None \<Rightarrow> candidates
         | Some cp \<Rightarrow>
             if cp \<noteq> [] \<and> \<not> includeCurrentProject
             then filter (\<lambda>p. pd_projectId p \<noteq> cp) candidates
             else candidates)"

definition pattern_candidate :: "PatternData \<Rightarrow> js_error + nat candidate" where
  "pattern_candidate p =
     (case pd_problemEmbedding p of
        None \<Rightarrow> Inl (Error ''Cannot read properties of undefined'')
      | Some buffer \<Rightarrow>
          (case deserializeEmbedding buffer of
             Inl e \<Rightarrow> Inl e
           | Inr v \<Rightarrow> Inr \<lparr>cand_id = pd_id p, cand_embedding = v\<rparr>))"

definition suggestion_of :: "PatternData list \<Rightarrow> nat match \<Rightarrow> suggestion" where
  "suggestion_of candidates m =
     (let pattern = find (\<lambda>p. pd_id p = match_id m) candidates
      in \<lparr>sg_patternId = match_id m,
          sg_name = (case pattern of None \<Rightarrow> [] | Some p \<Rightarrow> pd_name p),
          sg_project = (case pattern of None \<Rightarrow> [] | Some p \<Rightarrow> pd_projectId p),
          confidence = Math_round (similarity m * 100) / 100,
          sg_problem = (case pattern of None \<Rightarrow> [] | Some p \<Rightarrow> pd_problem p),
          sg_solution =
            (case pattern of None \<Rightarrow> ''undefined'' | Some p \<Rightarrow> take 200 (pd_solution p))
            @ (if (case pattern of None \<Rightarrow> 0 | Some p \<Rightarrow> length (pd_solution p)) > 200
               then ''...'' else [])\<rparr>)"

text \<open>The body of the \<^verbatim>\<open>try\<close> of the handler.\<close>

definition suggest_patterns_try ::
  "Env \<Rightarrow> SuggestPatternsInput \<Rightarrow> World \<Rightarrow> (js_error + suggest_data ToolResult) \<times> World" where
  "suggest_patterns_try env input w =
     (let problem = sp_problem input;
          currentProject = sp_currentProject input;
          limit = (case sp_limit input of None \<Rightarrow> 5 | Some l \<Rightarrow> l);
          minConfidence = (case sp_minConfidence input of None \<Rightarrow> 1 / 2 | Some c \<Rightarrow> c);
          includeCurrentProject =
            (case sp_includeCurrentProject input of None \<Rightarrow> False | Some b \<Rightarrow> b);
          patterns = getPatterns (db w) None;
          candidates = pattern_candidates patterns currentProject includeCurrentProject
      in if length candidates = 0
         then (Inr (Success \<lparr>sg_message = Some ''No patterns found in knowledge base'',
                              suggestions = []\<rparr>), w)
         else
           (case preload env w of
              (Inl e, w0) \<Rightarrow> (Inl e, w0)
            | (Inr _, w0) \<Rightarrow>
                (case embed env problem w0 of
                   (Inl e, w1) \<Rightarrow> (Inl e, w1)
                 | (Inr problemEmbedding, w1) \<Rightarrow>
                     (case map_throw pattern_candidate candidates of
                        Inl e \<Rightarrow> (Inl e, w1)
                      | Inr candidatesWithEmbeddings \<Rightarrow>
                          (case findSimilar problemEmbedding candidatesWithEmbeddings
                                  limit minConfidence of
                             Inl e \<Rightarrow> (Inl e, w1)
                           | Inr similar \<Rightarrow>
                               (let suggestions' = map (suggestion_of candidates) similar;
                                    d = logActivity (db w1) ''suggest_patterns''
                                          [(''problem'', take 100 problem),
                                           (''suggestionsFound'', show_nat (length suggestions')),
                                           (''patternsSearched'', show_nat (length candidates))]
                                          currentProject (now_iso env)
                                in (Inr (Success \<lparr>sg_message = None,
                                                   suggestions = suggestions'\<rparr>),
                                    w1\<lparr>db := d\<rparr>)))))))"

definition suggest_patterns ::
  "Env \<Rightarrow> SuggestPatternsInput \<Rightarrow> World \<Rightarrow> suggest_data ToolResult \<times> World" where
  "suggest_patterns env input w =
     (case suggest_patterns_try env input w of
        (Inl err, w') \<Rightarrow> (Failure ''SUGGESTION_ERROR'' (message err), w')
      | (Inr r, w') \<Rightarrow> (r, w'))"

section \<open>A concrete project\<close>

text \<open>
  A small environment and database on which the handlers are run: the project \<open>demo\<close> at
  \<open>/demo\<close> with the files \<open>a.ts\<close> (indexed, unchanged), \<open>b.ts\<close> (not indexed yet) and
  \<open>c.ts\<close> (unreadable), a model that loads and returns the vector (1.0, 0.0) for every
  text, and a hash function that keeps the content apart. The stored vector of \<open>a.ts\<close> is
  (0.3125, 0.5).
\<close>

definition ex_env :: Env where
  "ex_env =
     \<lparr>existsSync = (\<lambda>p. True),
      readFile = (\<lambda>p. if p = ''/demo/a.ts'' then Inr ''parses tokens''
                      else if p = ''/demo/b.ts'' then Inr ''renders a button''
                      else Inl (Error ''ENOENT: no such file or directory'')),
      stat_size = (\<lambda>p. Inr 16),
      findTextFiles = (\<lambda>d. [''/demo/a.ts'', ''/demo/b.ts'', ''/demo/c.ts'']),
      path_join = (\<lambda>a b. a @ ''/'' @ b),
      path_relative = (\<lambda>from to. drop (length from + 1) to),
      path_extname = (\<lambda>p. drop (length p - 3) p),
      md5_hex = (\<lambda>content. ''md5:'' @ content),
      now_iso = ''2026-01-14T00:00:00.000Z'',
      load_pipeline = None,
      run_pipeline = (\<lambda>t. Inr [0x3F800000, 0]),
      indexFile_fault = (\<lambda>d projectId path. None)\<rparr>"

definition ex_row_a :: FileIndexRow where
  "ex_row_a =
     \<lparr>fi_project_id = ''demo'', fi_path = ''a.ts'', fi_file_type = Some ''.ts'', fi_size = 13,
      fi_content_hash = ''md5:parses tokens'', fi_content_preview = Some ''parses tokens'',
      fi_embedding = Some (serializeEmbedding (new_Float32Array [0x3EA00000, 0x3F000000])),
      fi_indexed_at = ''2026-01-13T00:00:00.000Z''\<rparr>"

definition ex_pattern :: PatternRow where
  "ex_pattern =
     \<lparr>pr_id = 7, pr_project_id = ''svc-a'', pr_name = ''retry-with-backoff'',
      pr_problem = ''API calls fail intermittently under load'',
      pr_solution = ''retry with exponential backoff'',
      pr_implementation = None, pr_metrics = None,
      pr_problem_embedding = Some (serializeEmbedding (new_Float32Array [0x3F800000, 0])),
      pr_created_at = ''2026-01-12T00:00:00.000Z''\<rparr>"

definition ex_db :: ProjectDatabase where
  "ex_db =
     \<lparr>projects = [\<lparr>proj_id = ''demo'', proj_name = ''demo'', proj_path = ''/demo''\<rparr>,
                  \<lparr>proj_id = ''svc-a'', proj_name = ''service a'', proj_path = ''/svc-a''\<rparr>],
      file_index = [ex_row_a],
      patterns = [ex_pattern],
      activity_log = []\<rparr>"

definition ex_world :: World where
  "ex_world = \<lparr>db = ex_db, emb = emb_initial, embed_calls = 0, store_writes = 0\<rparr>"

text \<open>The same world once the model has been loaded.\<close>

definition ex_emb_loaded :: emb_module where
  "ex_emb_loaded = \<lparr>embeddingPipeline = True, initPromise = Some Fulfilled, pipeline_calls = 1\<rparr>"

text \<open>A project registered under the empty identifier, with a pattern of its own.\<close>

definition ex_db_anon :: ProjectDatabase where
  "ex_db_anon =
     \<lparr>projects = [\<lparr>proj_id = [], proj_name = ''scratch'', proj_path = ''/scratch''\<rparr>],
      file_index = [],
      patterns = [ex_pattern\<lparr>pr_project_id := []\<rparr>],
      activity_log = []\<rparr>"

section \<open>Properties of the codec\<close>

lemma le_word_f32_bytes: "le_word (f32_bytes w) = w"
  unfolding le_word_def f32_bytes_def
proof (rule bit_word_eqI)
  fix n :: nat
  assume n: "n < LENGTH(32)"
  have "n < 8 \<or> (8 \<le> n \<and> n < 16) \<or> (16 \<le> n \<and> n < 24) \<or> (24 \<le> n \<and> n < 32)"
    using n by auto
  then show "bit (foldr (\<lambda>b acc. ucast b OR push_bit 8 acc)
                 [ucast w, ucast (drop_bit 8 w), ucast (drop_bit 16 w), ucast (drop_bit 24 w) :: byte]
                 (0 :: f32)) n = bit w n"
    by (auto simp add: bit_simps)
qed

lemma length_f32_bytes: "length (f32_bytes w) = 4"
  by (simp add: f32_bytes_def)

lemma length_concat_f32_bytes: "length (concat (map f32_bytes xs)) = 4 * length xs"
  by (induction xs) (simp_all add: length_f32_bytes)

lemma f32_at_concat:
  "i < length xs \<Longrightarrow> f32_at (concat (map f32_bytes xs)) (4 * i) = xs ! i"
proof (induction xs arbitrary: i)
  case Nil
  then show ?case by simp
next
  case (Cons x xs)
  show ?case
  proof (cases i)
    case 0
    then show ?thesis
      by (simp add: f32_at_def length_f32_bytes le_word_f32_bytes)
  next
    case (Suc j)
    with Cons.prems have j: "j < length xs" by simp
    have "f32_at (concat (map f32_bytes (x # xs))) (4 * i)
            = f32_at (concat (map f32_bytes xs)) (4 * j)"
      using Suc by (simp add: f32_at_def length_f32_bytes)
    with Cons.IH [OF j] Suc show ?thesis by simp
  qed
qed

lemma fa_length_new [simp]: "fa_length (new_Float32Array v) = length v"
  by (simp add: new_Float32Array_def)

lemma fa_elems_new_Float32Array: "fa_elems (new_Float32Array xs) = xs"
  by (rule nth_equalityI) (simp_all add: fa_elems_def new_Float32Array_def f32_at_concat)

lemma fa_get_new_Float32Array:
  "i < length v \<Longrightarrow> fa_get (new_Float32Array v) i = Some (v ! i)"
  by (simp add: fa_get_def new_Float32Array_def f32_at_concat)

lemma fa_num_new: "i < length v \<Longrightarrow> fa_num (new_Float32Array v) i = f32_value (v ! i)"
  by (simp add: fa_num_def new_Float32Array_def f32_at_concat)

lemma deserialize_serialize_new:
  "deserializeEmbedding (serializeEmbedding (new_Float32Array v)) = Inr (new_Float32Array v)"
  by (simp add: deserializeEmbedding_def serializeEmbedding_def view_Float32Array_def
      new_Float32Array_def length_concat_f32_bytes)

text \<open>
  C4: for every finite sequence \<open>v\<close> of float32 values, deserializing the serialization of
  the embedding vector made of \<open>v\<close> succeeds and yields a vector of the same length whose
  every element has the bit pattern of the corresponding element of \<open>v\<close>.
\<close>

theorem serialize_roundtrip:
  "\<exists>a. deserializeEmbedding (serializeEmbedding (new_Float32Array v)) = Inr a
       \<and> fa_length a = length v
       \<and> fa_elems a = v
       \<and> (\<forall>i < length v. fa_get a i = Some (v ! i))"
  by (simp add: deserialize_serialize_new fa_elems_new_Float32Array fa_get_new_Float32Array)

theorem serialize_roundtrip_witness:
  "\<exists>a. deserializeEmbedding (serializeEmbedding (new_Float32Array [0x3F800000, 0x40000000])) = Inr a
       \<and> fa_length a = 2
       \<and> fa_elems a = [0x3F800000, 0x40000000]
       \<and> fa_get a 0 = Some 0x3F800000 \<and> fa_get a 1 = Some 0x40000000"
  using serialize_roundtrip [of "[0x3F800000, 0x40000000]"]
  by (auto simp add: less_Suc_eq numeral_2_eq_2)

text \<open>
  The serialization takes the whole buffer under the typed array. On a view that does not
  cover its buffer, such as a \<^verbatim>\<open>subarray\<close>, the round trip returns the elements of the
  buffer, not those of the view. The vectors that \<^verbatim>\<open>embed\<close> returns own their buffer.
\<close>

lemma serialize_subarray_whole_buffer:
  "fa_elems (subarray (new_Float32Array [0x3F800000, 0x40000000, 0x40400000]) 1)
     = [0x40000000, 0x40400000]
   \<and> (\<exists>a. deserializeEmbedding (serializeEmbedding
              (subarray (new_Float32Array [0x3F800000, 0x40000000, 0x40400000]) 1)) = Inr a
          \<and> fa_elems a = [0x3F800000, 0x40000000, 0x40400000])"
proof -
  let ?v = "[0x3F800000, 0x40000000, 0x40400000] :: f32 list"
  have sub: "subarray (new_Float32Array ?v) 1
       = \<lparr>fa_buffer = fa_buffer (new_Float32Array ?v), fa_byteOffset = 4, fa_length = 2\<rparr>"
    by (simp add: subarray_def new_Float32Array_def)
  have "fa_elems (subarray (new_Float32Array ?v) 1) = map (\<lambda>i. ?v ! i) [1, 2]"
    unfolding sub fa_elems_def
    using f32_at_concat [of 1 ?v] f32_at_concat [of 2 ?v]
    by (simp add: new_Float32Array_def upt_rec numeral_2_eq_2)
  moreover have "deserializeEmbedding (serializeEmbedding (subarray (new_Float32Array ?v) 1))
       = Inr (new_Float32Array ?v)"
    unfolding sub
    by (simp add: deserializeEmbedding_def serializeEmbedding_def view_Float32Array_def
        new_Float32Array_def length_f32_bytes)
  ultimately show ?thesis
    by (simp add: fa_elems_new_Float32Array)
qed

section \<open>Properties of the similarity\<close>

subsection \<open>Sums of products\<close>

lemma fold_add_sum_list:
  "fold (\<lambda>i (acc::real). acc + f i) ns acc0 = acc0 + (\<Sum>i\<leftarrow>ns. f i)"
  by (induction ns arbitrary: acc0) simp_all





subsection \<open>The two implementations on vectors of equal length\<close>

lemma nullish0_fa_get: "i < fa_length a \<Longrightarrow> nullish0 (fa_get a i) = fa_num a i"
  by (simp add: nullish0_def fa_get_def fa_num_def)

lemma cosineSimilarity_dot:
  "fa_length a = fa_length b \<Longrightarrow>
   cosineSimilarity a b = Inr (\<Sum>i\<leftarrow>[0..<fa_length a]. fa_num a i * fa_num b i)"
proof -
  assume len: "fa_length a = fa_length b"
  have "(\<Sum>i\<leftarrow>[0..<fa_length a]. nullish0 (fa_get a i) * nullish0 (fa_get b i))
      = (\<Sum>i\<leftarrow>[0..<fa_length a]. fa_num a i * fa_num b i)"
    by (rule arg_cong [where f = sum_list], rule map_cong) (simp_all add: nullish0_fa_get len [symmetric])
  then show ?thesis
    by (simp add: cosineSimilarity_def len fold_add_sum_list)
qed








subsection \<open>Concrete vectors\<close>

lemma dot_new:
  "length u = length v \<Longrightarrow>
   (\<Sum>i\<leftarrow>[0..<length v]. fa_num (new_Float32Array v) i * fa_num (new_Float32Array u) i)
     = (\<Sum>(x, y)\<leftarrow>zip v u. f32_value x * f32_value y)"
proof -
  assume len: "length u = length v"
  have "map (\<lambda>i. fa_num (new_Float32Array v) i * fa_num (new_Float32Array u) i) [0..<length v]
      = map (\<lambda>(x, y). f32_value x * f32_value y) (zip v u)"
    by (rule nth_equalityI) (simp_all add: len fa_num_new)
  then show ?thesis by simp
qed

lemma cosineSimilarity_new:
  "length u = length v \<Longrightarrow>
   cosineSimilarity (new_Float32Array v) (new_Float32Array u)
     = Inr (\<Sum>(x, y)\<leftarrow>zip v u. f32_value x * f32_value y)"
  by (simp add: cosineSimilarity_dot dot_new)


lemma f32_value_one: "f32_value 0x3F800000 = 1"
  by (simp add: f32_value_def)

lemma f32_value_zero: "f32_value 0 = 0"
  by (simp add: f32_value_def)


lemma f32_value_5_16: "f32_value 0x3EA00000 = 5 / 16"
  by (simp add: f32_value_def)

lemma f32_value_half: "f32_value 0x3F000000 = 1 / 2"
  by (simp add: f32_value_def)



subsection \<open>Vectors of different lengths\<close>

lemma map_throw_Inl:
  "x \<in> set xs \<Longrightarrow> f x = Inl e \<Longrightarrow> \<exists>e'. map_throw f xs = Inl e'"
  by (induction xs) (auto split: sum.splits)



text \<open>
  In the handlers the thrown error surfaces: \<^verbatim>\<open>search_semantic\<close>, which has no \<^verbatim>\<open>try\<close>,
  throws it, and \<^verbatim>\<open>suggest_patterns\<close> returns it as the failure \<open>SUGGESTION_ERROR\<close>.
\<close>

lemma findSimilar_throws:
  assumes "c \<in> set cands" and "fa_length q \<noteq> fa_length (cand_embedding c)"
  shows "\<exists>e. findSimilar q cands limit minSimilarity = Inl e"
proof -
  have "\<exists>e. score q c = Inl e"
    using assms(2) by (simp add: score_def cosineSimilarity_def)
  then obtain e where "score q c = Inl e" ..
  from map_throw_Inl [of c cands "score q", OF assms(1) this] show ?thesis
    by (auto simp add: findSimilar_def)
qed

lemma search_semantic_dimension_mismatch:
  assumes "getProject (db w) (ss_project input) = Some projectInfo"
    and "search_candidates (db w) (ss_project input) (ss_fileTypes input) \<noteq> []"
    and "embed env (ss_query input) w = (Inr q, w1)"
    and "map_throw file_candidate
           (search_candidates (db w) (ss_project input) (ss_fileTypes input)) = Inr cwe"
    and "c \<in> set cwe" and "fa_length q \<noteq> fa_length (cand_embedding c)"
  shows "\<exists>e. search_semantic env input w = (Inl e, w1)"
proof -
  from findSimilar_throws [OF assms(5,6)] obtain e where
    "findSimilar q cwe (case ss_limit input of None \<Rightarrow> 10 | Some l \<Rightarrow> l)
       (case ss_minRelevance input of None \<Rightarrow> 3 / 10 | Some r \<Rightarrow> r) = Inl e"
    by blast
  with assms(1-4) have "search_semantic env input w = (Inl e, w1)"
    by (simp add: search_semantic_def Let_def)
  then show ?thesis ..
qed

lemma suggest_patterns_dimension_mismatch:
  assumes "pattern_candidates (getPatterns (db w) None) (sp_currentProject input)
             (case sp_includeCurrentProject input of None \<Rightarrow> False | Some b \<Rightarrow> b) = cands"
    and "cands \<noteq> []"
    and "preload env w = (Inr (), w0)"
    and "embed env (sp_problem input) w0 = (Inr q, w1)"
    and "map_throw pattern_candidate cands = Inr cwe"
    and "c \<in> set cwe" and "fa_length q \<noteq> fa_length (cand_embedding c)"
  shows "\<exists>msg. suggest_patterns env input w = (Failure ''SUGGESTION_ERROR'' msg, w1)"
proof -
  from findSimilar_throws [OF assms(6,7)] obtain e where
    "findSimilar q cwe (case sp_limit input of None \<Rightarrow> 5 | Some l \<Rightarrow> l)
       (case sp_minConfidence input of None \<Rightarrow> 1 / 2 | Some r \<Rightarrow> r) = Inl e"
    by blast
  with assms(1-5) have "suggest_patterns env input w = (Failure ''SUGGESTION_ERROR'' (message e), w1)"
    by (simp add: suggest_patterns_def suggest_patterns_try_def Let_def)
  then show ?thesis ..
qed

section \<open>Properties of the ranking\<close>

lemma ToInteger_numeral [simp]: "ToInteger (numeral n) = numeral n"
  by (simp add: ToInteger_def)

lemma ToInteger_neg_numeral [simp]: "ToInteger (- numeral n) = - numeral n"
  by (simp add: ToInteger_def)


lemma set_slice0: "set (slice0 xs e) \<subseteq> set xs"
  by (simp add: slice0_def Let_def set_take_subset)

lemma slice0_single: "1 \<le> l \<Longrightarrow> slice0 [x] l = [x]"
proof -
  assume "1 \<le> l"
  then have "1 \<le> \<lfloor>l\<rfloor>" by linarith
  with \<open>1 \<le> l\<close> show ?thesis
    by (simp add: slice0_def ToInteger_def Let_def)
qed

lemma slice0_negative: "slice0 [x, y, z] (- 1) = [x, y]"
proof -
  have "\<lceil>- 1 :: real\<rceil> = - 1" by linarith
  then have "ToInteger (- 1) = - 1" by (simp add: ToInteger_def)
  then show ?thesis by (simp add: slice0_def)
qed



lemma Math_round_of_int: "Math_round (of_int k) = of_int k"
proof -
  have "\<lfloor>of_int k + (1 / 2 :: real)\<rfloor> = k" by linarith
  then show ?thesis by (simp add: Math_round_def)
qed


lemma Math_round_100: "Math_round 100 = 100"
  using Math_round_of_int [of 100] by simp

lemma map_throw_Inr_set:
  "map_throw f xs = Inr ys \<Longrightarrow> y \<in> set ys \<Longrightarrow> \<exists>x \<in> set xs. f x = Inr y"
proof (induction xs arbitrary: ys)
  case Nil
  then show ?case by simp
next
  case (Cons x xs)
  then show ?case
    by (fastforce split: sum.splits)
qed


lemma findSimilar_ids:
  assumes "findSimilar q cands limit m = Inr ms" and "r \<in> set ms"
  shows "\<exists>c \<in> set cands. cand_id c = match_id r"
proof -
  from assms(1) obtain scored where
    scored: "map_throw (score q) cands = Inr scored"
    and ms: "ms = slice0 (sort_key (\<lambda>r. - similarity r) (filter (\<lambda>r. m \<le> similarity r) scored)) limit"
    by (auto simp add: findSimilar_def split: sum.splits)
  have "set ms \<subseteq> set scored"
    unfolding ms using set_slice0 by fastforce
  with assms(2) have "r \<in> set scored" by blast
  from map_throw_Inr_set [OF scored this] obtain c where "c \<in> set cands" "score q c = Inr r"
    by blast
  then show ?thesis
    by (auto simp add: score_def split: sum.splits)
qed

section \<open>Properties of the model singleton\<close>

lemma run_snoc: "run m (es @ [e]) = step (run m es) e"
  by (simp add: run_def)

lemma step_shape: "reachable_shape m \<Longrightarrow> reachable_shape (step m e)"
  by (cases e)
     (auto simp add: reachable_shape_def initialize_enter_def load_settles_def
        split: option.splits promise.splits)

lemma run_shape: "reachable_shape m \<Longrightarrow> reachable_shape (run m es)"
  by (induction es rule: rev_induct) (simp_all add: run_def step_shape)

lemma initial_shape: "reachable_shape emb_initial"
  by (simp add: reachable_shape_def emb_initial_def)

lemma run_no_call:
  "Call_initialize \<notin> set es \<Longrightarrow> run emb_initial es = emb_initial"
proof (induction es rule: rev_induct)
  case Nil
  then show ?case by (simp add: run_def)
next
  case (snoc e es)
  then have "run emb_initial es = emb_initial" by simp
  moreover from snoc.prems obtain outcome where "e = Load_settles outcome"
    by (cases e) auto
  ultimately show ?case
    by (simp add: run_snoc load_settles_def emb_initial_def)
qed

lemma step_calls_mono: "pipeline_calls m \<le> pipeline_calls (step m e)"
  by (cases e) (auto simp add: initialize_enter_def load_settles_def split: option.splits)

lemma run_calls_mono: "pipeline_calls m \<le> pipeline_calls (run m es)"
proof (induction es rule: rev_induct)
  case Nil
  then show ?case by (simp add: run_def)
next
  case (snoc e es)
  then show ?case
    using step_calls_mono [of "run m es" e] by (simp add: run_snoc)
qed

lemma run_called:
  "Call_initialize \<in> set es \<Longrightarrow> pipeline_calls (run emb_initial es) = 1"
proof -
  assume "Call_initialize \<in> set es"
  then obtain es1 es2 where es: "es = es1 @ Call_initialize # es2"
    and first: "Call_initialize \<notin> set es1"
    by (meson split_list_first)
  have "run emb_initial (es1 @ [Call_initialize]) = step emb_initial Call_initialize"
    using run_no_call [OF first] by (simp add: run_snoc)
  then have one: "pipeline_calls (run emb_initial (es1 @ [Call_initialize])) = 1"
    by (simp add: initialize_enter_def emb_initial_def)
  have "run emb_initial es = run (run emb_initial (es1 @ [Call_initialize])) es2"
    unfolding es by (simp add: run_def)
  then have "1 \<le> pipeline_calls (run emb_initial es)"
    using run_calls_mono [of "run emb_initial (es1 @ [Call_initialize])" es2] one by simp
  moreover have "pipeline_calls (run emb_initial es) \<le> 1"
    using run_shape [OF initial_shape, of es]
    by (auto simp add: reachable_shape_def split: option.splits promise.splits)
  ultimately show ?thesis by simp
qed

lemma loaded_stays:
  "reachable_shape m \<Longrightarrow> embeddingPipeline m \<Longrightarrow> run m es = m"
proof (induction es rule: rev_induct)
  case Nil
  then show ?case by (simp add: run_def)
next
  case (snoc e es)
  then have "run m es = m" by simp
  moreover have "step m e = m"
    using snoc.prems
    by (cases e)
       (auto simp add: reachable_shape_def initialize_enter_def load_settles_def
          split: option.splits promise.splits)
  ultimately show ?case by (simp add: run_snoc)
qed

text \<open>
  C9: after any sequence of calls of \<^verbatim>\<open>initialize\<close> (each \<^verbatim>\<open>embed\<close>, \<^verbatim>\<open>embedBatch\<close> and
  \<^verbatim>\<open>preload\<close> begins with one) and of settlements of the load, in any order: no load has
  been started when there was no call and exactly one when there was, the first call being
  the one that starts it; a call that arrives while the load is pending awaits the stored
  promise and starts nothing; and once the model is stored a call returns at once and no
  further event changes the module, so the model stays and is never loaded again.
\<close>

theorem single_flight_initialization:
  "pipeline_calls (run emb_initial es) = (if Call_initialize \<in> set es then 1 else 0)
   \<and> (Call_initialize \<notin> set es \<longrightarrow>
        initialize_enter (run emb_initial es)
          = (Await_started, emb_initial\<lparr>initPromise := Some Pending, pipeline_calls := 1\<rparr>))
   \<and> (initPromise (run emb_initial es) = Some Pending \<longrightarrow>
        initialize_enter (run emb_initial es) = (Await_existing, run emb_initial es))
   \<and> (embeddingPipeline (run emb_initial es) \<longrightarrow>
        initialize_enter (run emb_initial es) = (Return_loaded, run emb_initial es)
        \<and> (\<forall>es'. run (run emb_initial es) es' = run emb_initial es))"
proof (intro conjI impI)
  let ?m = "run emb_initial es"
  have shape: "reachable_shape ?m"
    by (rule run_shape [OF initial_shape])
  show "pipeline_calls ?m = (if Call_initialize \<in> set es then 1 else 0)"
    using run_called [of es] run_no_call [of es] by (auto simp add: emb_initial_def)
  show "initialize_enter ?m
          = (Await_started, emb_initial\<lparr>initPromise := Some Pending, pipeline_calls := 1\<rparr>)"
    if "Call_initialize \<notin> set es"
    using run_no_call [OF that] by (simp add: initialize_enter_def emb_initial_def)
  show "initialize_enter ?m = (Await_existing, ?m)" if "initPromise ?m = Some Pending"
    using shape that by (auto simp add: reachable_shape_def initialize_enter_def)
  show "initialize_enter ?m = (Return_loaded, ?m)" if "embeddingPipeline ?m"
    using that by (simp add: initialize_enter_def)
  show "\<forall>es'. run ?m es' = ?m" if "embeddingPipeline ?m"
    using loaded_stays [OF shape that] by simp
qed

lemma run_ex:
  "run emb_initial [Call_initialize, Call_initialize, Load_settles None, Call_initialize]
     = ex_emb_loaded"
  by (simp add: run_def initialize_enter_def load_settles_def emb_initial_def ex_emb_loaded_def)

theorem single_flight_initialization_witness:
  "Call_initialize \<in> set [Call_initialize, Call_initialize, Load_settles None, Call_initialize]
   \<and> Call_initialize \<notin> set [Load_settles None]
   \<and> initPromise (run emb_initial [Call_initialize, Call_initialize]) = Some Pending
   \<and> embeddingPipeline
        (run emb_initial [Call_initialize, Call_initialize, Load_settles None, Call_initialize])
   \<and> pipeline_calls
        (run emb_initial [Call_initialize, Call_initialize, Load_settles None, Call_initialize]) = 1
   \<and> pipeline_calls (run emb_initial [Load_settles None]) = 0
   \<and> initialize_enter (run emb_initial [Call_initialize, Call_initialize])
        = (Await_existing, run emb_initial [Call_initialize, Call_initialize])
   \<and> run (run emb_initial [Call_initialize, Call_initialize, Load_settles None, Call_initialize])
        [Call_initialize, Load_settles (Some (Error ''offline''))]
        = run emb_initial [Call_initialize, Call_initialize, Load_settles None, Call_initialize]"
proof -
  have pending: "initPromise (run emb_initial [Call_initialize, Call_initialize]) = Some Pending"
    by (simp add: run_def initialize_enter_def emb_initial_def)
  have loaded: "embeddingPipeline
        (run emb_initial [Call_initialize, Call_initialize, Load_settles None, Call_initialize])"
    by (simp add: run_ex ex_emb_loaded_def)
  from single_flight_initialization
         [of "[Call_initialize, Call_initialize, Load_settles None, Call_initialize]"]
       single_flight_initialization [of "[Load_settles None]"]
       single_flight_initialization [of "[Call_initialize, Call_initialize]"]
       pending loaded
  show ?thesis by simp
qed

subsection \<open>The awaited initialization\<close>

text \<open>The awaited \<^verbatim>\<open>initialize\<close> of the handlers is a call followed by the settlement.\<close>

lemma initialize_as_run:
  "reachable_shape m \<Longrightarrow>
   snd (initialize env m) = run m [Call_initialize, Load_settles (load_pipeline env)]"
  by (auto simp add: initialize_def initialize_enter_def load_settles_def run_def
      reachable_shape_def split: option.splits promise.splits)

lemma initialize_loaded: "embeddingPipeline m \<Longrightarrow> initialize env m = (Inr (), m)"
  by (simp add: initialize_def initialize_enter_def)

lemma initialize_ex: "initialize ex_env emb_initial = (Inr (), ex_emb_loaded)"
  by (simp add: initialize_def initialize_enter_def load_settles_def emb_initial_def ex_env_def ex_emb_loaded_def)

lemma preload_ex:
  "preload ex_env \<lparr>db = d, emb = emb_initial, embed_calls = n, store_writes = k\<rparr>
     = (Inr (), \<lparr>db = d, emb = ex_emb_loaded, embed_calls = n, store_writes = k\<rparr>)"
  by (simp add: preload_def initialize_ex)

lemma preload_keeps:
  "preload env w = (r, w') \<Longrightarrow>
   db w' = db w \<and> embed_calls w' = embed_calls w \<and> store_writes w' = store_writes w"
  by (auto simp add: preload_def split: prod.splits)


lemma embed_loaded_ex:
  "embed ex_env text \<lparr>db = d, emb = ex_emb_loaded, embed_calls = n, store_writes = k\<rparr>
     = (Inr (new_Float32Array [0x3F800000, 0]),
        \<lparr>db = d, emb = ex_emb_loaded, embed_calls = Suc n, store_writes = k\<rparr>)"
  by (simp add: embed_def initialize_loaded ex_emb_loaded_def) (simp add: ex_env_def)

text \<open>The two counters count: each call of \<^verbatim>\<open>embed\<close> and each row written adds one.\<close>

lemma embed_counts: "embed_calls (snd (embed env text w)) = embed_calls w + 1"
  by (simp add: embed_def Let_def split: prod.splits sum.splits)

lemma db_indexFile_counts:
  "db_indexFile env projectId path opts w = (Inr u, w') \<Longrightarrow> store_writes w' = store_writes w + 1"
  by (auto simp add: db_indexFile_def split: option.splits)

section \<open>Properties of search\_semantic\<close>


subsection \<open>The search on the concrete project\<close>

lemma getProject_ex: "getProject ex_db ''demo'' = Some \<lparr>proj_id = ''demo'', proj_name = ''demo'', proj_path = ''/demo''\<rparr>"
  by (simp add: getProject_def ex_db_def)





text \<open>
  A negative limit does not bound the number of matches: \<^verbatim>\<open>slice(0, -1)\<close> drops the last one,
  so three candidates over the threshold give two matches.
\<close>

lemma findSimilar_negative_limit:
  "findSimilar (new_Float32Array [0x3F800000, 0])
     [\<lparr>cand_id = ''a.ts'', cand_embedding = new_Float32Array [0x3EA00000, 0x3F000000]\<rparr>,
      \<lparr>cand_id = ''b.ts'', cand_embedding = new_Float32Array [0x3EA00000, 0x3F000000]\<rparr>,
      \<lparr>cand_id = ''c.ts'', cand_embedding = new_Float32Array [0x3EA00000, 0x3F000000]\<rparr>]
     (- 1) (3 / 10)
   = Inr [\<lparr>match_id = ''a.ts'', similarity = 5 / 16\<rparr>,
          \<lparr>match_id = ''b.ts'', similarity = 5 / 16\<rparr>]"
  by (simp add: findSimilar_def score_def cosineSimilarity_new f32_value_one f32_value_zero
      f32_value_5_16 f32_value_half slice0_negative)





subsection \<open>No candidates\<close>

text \<open>
  C5: for a registered project whose candidate set (the rows of the project with an
  embedding, after the file-type filter when one is given) is empty, \<^verbatim>\<open>search_semantic\<close>
  returns the failure with code \<open>NO_INDEXED_FILES\<close> and changes nothing; it does not return
  a success with an empty list.
\<close>

theorem search_semantic_no_indexed_files:
  assumes "getProject (db w) (ss_project input) = Some projectInfo"
    and "search_candidates (db w) (ss_project input) (ss_fileTypes input) = []"
  shows "search_semantic env input w
         = (Inr (Failure ''NO_INDEXED_FILES''
                   ''No indexed files found. Run pm_index_files first.''), w)"
  using assms by (simp add: search_semantic_def)

text \<open>When the candidate set is empty, in terms of the rows of the index.\<close>

lemma search_candidates_empty_iff:
  "search_candidates d project fileTypes = [] \<longleftrightarrow>
     (\<forall>f \<in> set (file_index d).
        fi_project_id f = project \<longrightarrow> fi_embedding f \<noteq> None \<longrightarrow>
          (case fileTypes of
             None \<Rightarrow> False
           | Some exts \<Rightarrow> exts \<noteq> [] \<and> (\<forall>ext \<in> set exts. \<not> suffix ext (fi_path f))))"
  by (auto simp add: search_candidates_def getIndexedFiles_def filter_empty_conv list_ex_iff
      Let_def split: option.splits)

theorem search_semantic_no_indexed_files_witness:
  "getProject (db ex_world) ''demo''
     = Some \<lparr>proj_id = ''demo'', proj_name = ''demo'', proj_path = ''/demo''\<rparr>
   \<and> search_candidates (db ex_world) ''demo'' (Some [''.py'']) = []
   \<and> search_semantic ex_env
        \<lparr>ss_query = ''token parsing'', ss_project = ''demo'', ss_fileTypes = Some [''.py''],
         ss_limit = None, ss_minRelevance = None\<rparr> ex_world
      = (Inr (Failure ''NO_INDEXED_FILES''
                ''No indexed files found. Run pm_index_files first.''), ex_world)"
proof -
  have p: "getProject (db ex_world) ''demo''
     = Some \<lparr>proj_id = ''demo'', proj_name = ''demo'', proj_path = ''/demo''\<rparr>"
    by (simp add: ex_world_def getProject_ex)
  have c: "search_candidates (db ex_world) ''demo'' (Some [''.py'']) = []"
    by (simp add: search_candidates_empty_iff ex_world_def ex_db_def ex_row_a_def suffix_def)
  from search_semantic_no_indexed_files [of ex_world
      "\<lparr>ss_query = ''token parsing'', ss_project = ''demo'', ss_fileTypes = Some [''.py''],
         ss_limit = None, ss_minRelevance = None\<rparr>" _ ex_env] p c
  show ?thesis by simp
qed

section \<open>Properties of suggest\_patterns\<close>

lemma pattern_candidates_excluded:
  "P \<noteq> [] \<Longrightarrow> p \<in> set (pattern_candidates pats (Some P) False) \<Longrightarrow> pd_projectId p \<noteq> P"
  by (simp add: pattern_candidates_def)

lemma pattern_candidates_subset:
  "set (pattern_candidates pats cp incl) \<subseteq> set pats"
  by (auto simp add: pattern_candidates_def Let_def split: option.splits if_splits)

text \<open>
  C6, as amended: when \<^verbatim>\<open>suggest_patterns\<close> is called with a non-empty current project
  \<open>P\<close> and without the include-current-project flag, every suggestion it returns is that
  of a stored pattern with the suggestion's identifier and project, and that project is not
  \<open>P\<close>.
\<close>

theorem suggest_patterns_excludes_current:
  assumes cur: "sp_currentProject input = Some P" and ne: "P \<noteq> []"
    and flag: "sp_includeCurrentProject input \<noteq> Some True"
    and run: "suggest_patterns env input w = (Success data, w')"
  shows "\<forall>s \<in> set (suggestions data).
           sg_project s \<noteq> P
           \<and> (\<exists>p \<in> set (getPatterns (db w) None).
                 pd_id p = sg_patternId s \<and> pd_projectId p = sg_project s)"
proof
  fix s assume s: "s \<in> set (suggestions data)"
  let ?cands = "pattern_candidates (getPatterns (db w) None) (Some P) False"
  from flag have incl: "(case sp_includeCurrentProject input of None \<Rightarrow> False | Some b \<Rightarrow> b) = False"
    by (cases "sp_includeCurrentProject input") auto
  from run have tr: "fst (suggest_patterns_try env input w) = Inr (Success data)"
    by (auto simp add: suggest_patterns_def split: prod.splits sum.splits)
  show "sg_project s \<noteq> P
        \<and> (\<exists>p \<in> set (getPatterns (db w) None). pd_id p = sg_patternId s \<and> pd_projectId p = sg_project s)"
  proof (cases "length ?cands = 0")
    case True
    with tr cur incl have "suggestions data = []"
      by (auto simp add: suggest_patterns_try_def Let_def)
    with s show ?thesis by simp
  next
    case False
    with tr cur incl obtain q cwe limit minc similar where
      cwe: "map_throw pattern_candidate ?cands = Inr cwe"
      and sim: "findSimilar q cwe limit minc = Inr similar"
      and data: "suggestions data = map (suggestion_of ?cands) similar"
      by (auto simp add: suggest_patterns_try_def Let_def split: prod.splits sum.splits)
    from s data obtain m where m: "m \<in> set similar" and sm: "s = suggestion_of ?cands m"
      by auto
    from findSimilar_ids [OF sim m] obtain c where c: "c \<in> set cwe" "cand_id c = match_id m"
      by blast
    from map_throw_Inr_set [OF cwe c(1)] obtain p0 where
      p0: "p0 \<in> set ?cands" "pattern_candidate p0 = Inr c" by blast
    then have "pd_id p0 = match_id m"
      using c(2) by (auto simp add: pattern_candidate_def split: option.splits sum.splits)
    with p0(1) have "find (\<lambda>p. pd_id p = match_id m) ?cands \<noteq> None"
      by (auto simp add: find_None_iff)
    then obtain p where f: "find (\<lambda>p. pd_id p = match_id m) ?cands = Some p" by blast
    then have pin: "p \<in> set ?cands" and pid: "pd_id p = match_id m"
      by (auto simp add: find_Some_iff)
    from f sm have proj: "sg_project s = pd_projectId p" and sid: "sg_patternId s = pd_id p"
      by (simp_all add: suggestion_of_def pid)
    from pattern_candidates_excluded [OF ne pin] have "pd_projectId p \<noteq> P" .
    moreover from pin pattern_candidates_subset have "p \<in> set (getPatterns (db w) None)" by blast
    ultimately show ?thesis using proj sid by auto
  qed
qed

subsection \<open>The suggestion on the concrete project\<close>

lemma getPatterns_single:
  "patterns d = [row] \<Longrightarrow> getPatterns d None = [pattern_of_row row]"
  by (simp add: getPatterns_def)

lemma findSimilar_pattern_ex:
  "findSimilar (new_Float32Array [0x3F800000, 0])
     [\<lparr>cand_id = 7 :: nat, cand_embedding = new_Float32Array [0x3F800000, 0]\<rparr>] 5 (1 / 2)
   = Inr [\<lparr>match_id = 7, similarity = 1\<rparr>]"
  by (simp add: findSimilar_def score_def cosineSimilarity_new f32_value_one f32_value_zero
      slice0_single)

lemma suggest_patterns_ex:
  assumes "cp = [] \<or> cp \<noteq> pid" and "patterns d = [ex_pattern\<lparr>pr_project_id := pid\<rparr>]"
  shows "fst (suggest_patterns ex_env
            \<lparr>sp_problem = ''network requests sometimes time out'', sp_currentProject = Some cp,
             sp_limit = None, sp_minConfidence = None, sp_includeCurrentProject = None\<rparr>
            \<lparr>db = d, emb = emb_initial, embed_calls = 0, store_writes = 0\<rparr>)
         = Success \<lparr>sg_message = None,
             suggestions = [\<lparr>sg_patternId = 7, sg_name = ''retry-with-backoff'', sg_project = pid,
                             confidence = 1,
                             sg_problem = ''API calls fail intermittently under load'',
                             sg_solution = ''retry with exponential backoff''\<rparr>]\<rparr>"
proof -
  let ?p = "pattern_of_row (ex_pattern\<lparr>pr_project_id := pid\<rparr>)"
  have pats: "getPatterns d None = [?p]"
    by (rule getPatterns_single [OF assms(2)])
  have cands: "pattern_candidates [?p] (Some cp) False = [?p]"
    using assms(1) by (auto simp add: pattern_candidates_def pattern_of_row_def ex_pattern_def Let_def)
  have cand: "pattern_candidate ?p
       = Inr \<lparr>cand_id = 7, cand_embedding = new_Float32Array [0x3F800000, 0]\<rparr>"
    by (simp add: pattern_candidate_def pattern_of_row_def ex_pattern_def deserialize_serialize_new)
  have sugg: "suggestion_of [?p] \<lparr>match_id = 7, similarity = 1\<rparr>
       = \<lparr>sg_patternId = 7, sg_name = ''retry-with-backoff'', sg_project = pid,
                             confidence = 1,
                             sg_problem = ''API calls fail intermittently under load'',
                             sg_solution = ''retry with exponential backoff''\<rparr>"
    by (simp add: suggestion_of_def pattern_of_row_def ex_pattern_def Math_round_100)
  show ?thesis
    by (simp add: suggest_patterns_def suggest_patterns_try_def pats cands preload_ex
        embed_loaded_ex cand findSimilar_pattern_ex sugg)
qed

theorem suggest_patterns_excludes_current_witness:
  "fst (suggest_patterns ex_env
            \<lparr>sp_problem = ''network requests sometimes time out'', sp_currentProject = Some ''svc-b'',
             sp_limit = None, sp_minConfidence = None, sp_includeCurrentProject = None\<rparr> ex_world)
     = Success \<lparr>sg_message = None,
             suggestions = [\<lparr>sg_patternId = 7, sg_name = ''retry-with-backoff'',
                             sg_project = ''svc-a'', confidence = 1,
                             sg_problem = ''API calls fail intermittently under load'',
                             sg_solution = ''retry with exponential backoff''\<rparr>]\<rparr>
   \<and> ''svc-a'' \<noteq> ''svc-b''"
proof -
  let ?input = "\<lparr>sp_problem = ''network requests sometimes time out'', sp_currentProject = Some ''svc-b'',
             sp_limit = None, sp_minConfidence = None, sp_includeCurrentProject = None\<rparr>"
  let ?data = "\<lparr>sg_message = None,
             suggestions = [\<lparr>sg_patternId = 7, sg_name = ''retry-with-backoff'',
                             sg_project = ''svc-a'', confidence = 1,
                             sg_problem = ''API calls fail intermittently under load'',
                             sg_solution = ''retry with exponential backoff''\<rparr>]\<rparr>"
  have pats: "patterns ex_db = [ex_pattern\<lparr>pr_project_id := ''svc-a''\<rparr>]"
    by (simp add: ex_db_def ex_pattern_def)
  have run: "fst (suggest_patterns ex_env ?input ex_world) = Success ?data"
    unfolding ex_world_def by (rule suggest_patterns_ex [OF _ pats]) simp
  then have "suggest_patterns ex_env ?input ex_world
       = (Success ?data, snd (suggest_patterns ex_env ?input ex_world))"
    by (metis prod.collapse)
  from suggest_patterns_excludes_current [OF _ _ _ this, of "''svc-b''"] run
  show ?thesis by simp
qed

text \<open>
  C6 as stated fails for the empty project identifier, which a project can be registered
  under: the handler takes an empty \<^verbatim>\<open>currentProject\<close> as absent and filters nothing, so a
  pattern recorded in that project is suggested to it.
\<close>

theorem suggest_patterns_empty_project_counterexample:
  "fst (suggest_patterns ex_env
            \<lparr>sp_problem = ''network requests sometimes time out'', sp_currentProject = Some [],
             sp_limit = None, sp_minConfidence = None, sp_includeCurrentProject = None\<rparr>
            \<lparr>db = ex_db_anon, emb = emb_initial, embed_calls = 0, store_writes = 0\<rparr>)
     = Success \<lparr>sg_message = None,
             suggestions = [\<lparr>sg_patternId = 7, sg_name = ''retry-with-backoff'',
                             sg_project = [], confidence = 1,
                             sg_problem = ''API calls fail intermittently under load'',
                             sg_solution = ''retry with exponential backoff''\<rparr>]\<rparr>"
  by (rule suggest_patterns_ex) (simp_all add: ex_db_anon_def)

subsection \<open>No candidates\<close>

text \<open>
  C10: when the candidate set of \<^verbatim>\<open>suggest_patterns\<close> is empty (no stored pattern has an
  embedding, or the exclusion of the current project removes them all), the handler
  returns a success with an empty list of suggestions and changes nothing, whereas
  \<^verbatim>\<open>search_semantic\<close> on a registered project with an empty candidate set returns the
  failure \<open>NO_INDEXED_FILES\<close>.
\<close>

theorem suggest_patterns_no_candidates:
  assumes "pattern_candidates (getPatterns (db w) None) (sp_currentProject input)
             (case sp_includeCurrentProject input of None \<Rightarrow> False | Some b \<Rightarrow> b) = []"
  shows "suggest_patterns env input w
           = (Success \<lparr>sg_message = Some ''No patterns found in knowledge base'',
                       suggestions = []\<rparr>, w)
       \<and> (\<forall>env' sinput projectInfo.
             getProject (db w) (ss_project sinput) = Some projectInfo
             \<and> search_candidates (db w) (ss_project sinput) (ss_fileTypes sinput) = []
             \<longrightarrow> search_semantic env' sinput w
                   = (Inr (Failure ''NO_INDEXED_FILES''
                             ''No indexed files found. Run pm_index_files first.''), w))"
  using assms
  by (simp add: suggest_patterns_def suggest_patterns_try_def search_semantic_def)

theorem suggest_patterns_no_candidates_witness:
  "pattern_candidates (getPatterns (db ex_world) None) (Some ''svc-a'') False = []
   \<and> suggest_patterns ex_env
        \<lparr>sp_problem = ''network requests sometimes time out'', sp_currentProject = Some ''svc-a'',
         sp_limit = None, sp_minConfidence = None, sp_includeCurrentProject = None\<rparr> ex_world
      = (Success \<lparr>sg_message = Some ''No patterns found in knowledge base'',
                       suggestions = []\<rparr>, ex_world)
   \<and> search_semantic ex_env
        \<lparr>ss_query = ''token parsing'', ss_project = ''svc-a'', ss_fileTypes = None,
         ss_limit = None, ss_minRelevance = None\<rparr> ex_world
      = (Inr (Failure ''NO_INDEXED_FILES''
                ''No indexed files found. Run pm_index_files first.''), ex_world)"
proof -
  have pats: "getPatterns (db ex_world) None = [pattern_of_row ex_pattern]"
    by (rule getPatterns_single) (simp add: ex_world_def ex_db_def)
  have c: "pattern_candidates (getPatterns (db ex_world) None) (Some ''svc-a'') False = []"
    by (simp add: pats pattern_candidates_def pattern_of_row_def ex_pattern_def)
  have p: "getProject (db ex_world) ''svc-a''
       = Some \<lparr>proj_id = ''svc-a'', proj_name = ''service a'', proj_path = ''/svc-a''\<rparr>"
    by (simp add: getProject_def ex_world_def ex_db_def)
  have sc: "search_candidates (db ex_world) ''svc-a'' None = []"
    by (simp add: search_candidates_def getIndexedFiles_def ex_world_def ex_db_def ex_row_a_def)
  note t = suggest_patterns_no_candidates [of ex_world
         "\<lparr>sp_problem = ''network requests sometimes time out'', sp_currentProject = Some ''svc-a'',
         sp_limit = None, sp_minConfidence = None, sp_includeCurrentProject = None\<rparr>" ex_env]
  have t1: "suggest_patterns ex_env
        \<lparr>sp_problem = ''network requests sometimes time out'', sp_currentProject = Some ''svc-a'',
         sp_limit = None, sp_minConfidence = None, sp_includeCurrentProject = None\<rparr> ex_world
      = (Success \<lparr>sg_message = Some ''No patterns found in knowledge base'',
                       suggestions = []\<rparr>, ex_world)"
    using t c by simp
  have t2: "search_semantic ex_env
        \<lparr>ss_query = ''token parsing'', ss_project = ''svc-a'', ss_fileTypes = None,
         ss_limit = None, ss_minRelevance = None\<rparr> ex_world
      = (Inr (Failure ''NO_INDEXED_FILES''
                ''No indexed files found. Run pm_index_files first.''), ex_world)"
    using t [THEN conjunct2, rule_format, of "\<lparr>ss_query = ''token parsing'', ss_project = ''svc-a'', ss_fileTypes = None,
         ss_limit = None, ss_minRelevance = None\<rparr>" _ ex_env] c p sc
    by simp
  from c t1 t2 show ?thesis by simp
qed

section \<open>Properties of the indexing handlers\<close>

subsection \<open>Unchanged files\<close>

lemma index_files_try_unchanged:
  assumes "readFile env filePath = Inr content"
    and "getIndexedFile (db w) project (path_relative env projectPath filePath) = Some row"
    and "fi_content_hash row = md5_hex env content"
  shows "index_files_try env project projectPath False filePath w = (Inr File_skipped, w)"
  using assms by (simp add: index_files_try_def)






text \<open>
  The batch as a whole: when every discovered file is unchanged, \<^verbatim>\<open>pm_index_files\<close> reports
  all of them as skipped and leaves the database and both counters as they were.
\<close>

lemma index_files_loop_all_unchanged:
  assumes "\<forall>f \<in> set files. \<exists>content row.
             readFile env f = Inr content
           \<and> getIndexedFile (db w) project (path_relative env projectPath f) = Some row
           \<and> fi_content_hash row = md5_hex env content"
  shows "index_files_loop env project projectPath False files (i, s, errs) w
           = ((i, s + length files, errs), w)"
  using assms
proof (induction files arbitrary: s)
  case Nil
  then show ?case by simp
next
  case (Cons f files)
  from Cons.prems obtain content row where
    "readFile env f = Inr content"
    "getIndexedFile (db w) project (path_relative env projectPath f) = Some row"
    "fi_content_hash row = md5_hex env content"
    by auto
  then have "index_files_try env project projectPath False f w = (Inr File_skipped, w)"
    by (rule index_files_try_unchanged)
  moreover have "index_files_loop env project projectPath False files (i, s + 1, errs) w
           = ((i, s + 1 + length files, errs), w)"
    using Cons.prems by (intro Cons.IH) simp
  ultimately show ?case by simp
qed

lemma pm_index_files_all_unchanged:
  assumes project: "getProject (db w) (ifs_project input) = Some projectInfo"
    and loaded: "fst (preload env w) = Inr ()"
    and reindex: "ifs_reindex input \<noteq> Some True"
    and unchanged: "\<forall>f \<in> set (discover env (proj_path projectInfo) (ifs_paths input)).
           \<exists>content row.
             readFile env f = Inr content
           \<and> getIndexedFile (db w) (ifs_project input)
                (path_relative env (proj_path projectInfo) f) = Some row
           \<and> fi_content_hash row = md5_hex env content"
  shows "\<exists>w'. pm_index_files env input w
                = (Inr (Success \<lparr>totalFiles = length (discover env (proj_path projectInfo) (ifs_paths input)),
                                  indexed = 0,
                                  skipped = length (discover env (proj_path projectInfo) (ifs_paths input)),
                                  errors = None\<rparr>), w')
              \<and> db w' = db w \<and> embed_calls w' = embed_calls w \<and> store_writes w' = store_writes w"
proof -
  from loaded obtain w1 where pre: "preload env w = (Inr (), w1)"
    by (cases "preload env w") auto
  from preload_keeps [OF pre] have keep: "db w1 = db w" "embed_calls w1 = embed_calls w"
    "store_writes w1 = store_writes w" by simp_all
  have re: "(case ifs_reindex input of None \<Rightarrow> False | Some b \<Rightarrow> b) = False"
    using reindex by (cases "ifs_reindex input") auto
  have "index_files_loop env (ifs_project input) (proj_path projectInfo) False
          (discover env (proj_path projectInfo) (ifs_paths input)) (0, 0, []) w1
        = ((0, 0 + length (discover env (proj_path projectInfo) (ifs_paths input)), []), w1)"
    using unchanged by (intro index_files_loop_all_unchanged) (simp add: keep)
  then have "pm_index_files env input w
       = (Inr (Success \<lparr>totalFiles = length (discover env (proj_path projectInfo) (ifs_paths input)),
                                  indexed = 0,
                                  skipped = length (discover env (proj_path projectInfo) (ifs_paths input)),
                                  errors = None\<rparr>), w1)"
    using project pre re by (simp add: pm_index_files_def Let_def)
  with keep show ?thesis by blast
qed

subsection \<open>Failures of single files\<close>









end
